theory Spec2Isabelle
  imports Main "HOL-Library.Word"
begin

section \<open>Strings of the program\<close>

text \<open>
  The program is TypeScript: a string is a sequence of UTF-16 code units, and
  \<open>length\<close>, \<open>slice\<close>, \<open>trim\<close>, \<open>includes\<close> and the regular expressions of the
  source (none has the \<open>u\<close> flag) all work on code units.
\<close>

type_synonym jschar = "16 word"
type_synonym jsstring = "jschar list"

text \<open>A string literal of the source whose characters are all ASCII.\<close>

definition js :: "string \<Rightarrow> jsstring" where
  "js s = map of_char s"

text \<open>The class \<open>\d\<close> of a regular expression: the ten ASCII digits. \<open>\D\<close> is its complement.\<close>

definition is_digit :: "jschar \<Rightarrow> bool" where
  "is_digit c \<longleftrightarrow> 0x30 \<le> c \<and> c \<le> 0x39"

text \<open>
  White space and line terminators of ECMAScript: what \<open>String.prototype.trim\<close>
  removes and what the class \<open>\s\<close> matches.
\<close>

definition is_whitespace :: "jschar \<Rightarrow> bool" where
  "is_whitespace c \<longleftrightarrow>
     (0x09 \<le> c \<and> c \<le> 0x0D) \<or> c = 0x20 \<or> c = 0xA0 \<or> c = 0x1680 \<or>
     (0x2000 \<le> c \<and> c \<le> 0x200A) \<or> c = 0x2028 \<or> c = 0x2029 \<or> c = 0x202F \<or>
     c = 0x205F \<or> c = 0x3000 \<or> c = 0xFEFF"

text \<open>\<open>s.trim()\<close>.\<close>

definition trim :: "jsstring \<Rightarrow> jsstring" where
  "trim s = rev (dropWhile is_whitespace (rev (dropWhile is_whitespace s)))"

text \<open>\<open>s.slice(b, e)\<close> and \<open>s.slice(b)\<close> for indices \<open>0 \<le> b \<le> e\<close>; both clamp at the end of the string.\<close>

definition slice :: "nat \<Rightarrow> nat \<Rightarrow> jsstring \<Rightarrow> jsstring" where
  "slice b e s = take (e - b) (drop b s)"

definition slice_from :: "nat \<Rightarrow> jsstring \<Rightarrow> jsstring" where
  "slice_from b s = drop b s"

text \<open>\<open>s.includes(t)\<close>: \<open>t\<close> occurs in \<open>s\<close> as a contiguous run of code units.\<close>

fun starts_with :: "jsstring \<Rightarrow> jsstring \<Rightarrow> bool" where
  "starts_with [] s = True"
| "starts_with (t # ts) [] = False"
| "starts_with (t # ts) (c # cs) = (t = c \<and> starts_with ts cs)"

fun str_includes :: "jsstring \<Rightarrow> jsstring \<Rightarrow> bool" where
  "str_includes t [] = (t = [])"
| "str_includes t (c # cs) = (starts_with t (c # cs) \<or> str_includes t cs)"

section \<open>Phone mask\<close>

text \<open>\<open>value.replace(/\D/g, "")\<close>: every code unit that is not a digit is removed.\<close>

definition strip_non_digits :: "jsstring \<Rightarrow> jsstring" where
  "strip_non_digits v = filter is_digit v"

text \<open>\<open>formatPhone\<close>, lines 60 to 69 of RegistrationForm.tsx.\<close>

definition formatPhone :: "jsstring \<Rightarrow> jsstring" where
  "formatPhone v =
     (let numbers = strip_non_digits v in
      if length numbers \<le> 2 then
        (if length numbers \<noteq> 0 then js ''('' @ numbers else [])
      else if length numbers \<le> 7 then
        js ''('' @ slice 0 2 numbers @ js '') '' @ slice_from 2 numbers
      else
        js ''('' @ slice 0 2 numbers @ js '') '' @ slice 2 7 numbers @ js ''-'' @ slice 7 11 numbers)"

section \<open>Regular expression of the phone rule\<close>

text \<open>
  The pattern \<open>/^\(\d{2}\) \d{5}-\d{4}$/\<close> is a fixed sequence of one-character atoms
  anchored at both ends (without the \<open>m\<close> flag \<open>$\<close> is the end of the input).
\<close>

datatype atom = Lit jschar | Digit

fun atom_matches :: "atom \<Rightarrow> jschar \<Rightarrow> bool" where
  "atom_matches (Lit l) c = (c = l)"
| "atom_matches Digit c = is_digit c"

fun matches_atoms :: "atom list \<Rightarrow> jsstring \<Rightarrow> bool" where
  "matches_atoms [] [] = True"
| "matches_atoms (a # as) (c # cs) = (atom_matches a c \<and> matches_atoms as cs)"
| "matches_atoms _ _ = False"

definition celular_pattern :: "atom list" where
  "celular_pattern =
     [Lit 0x28] @ replicate 2 Digit @ [Lit 0x29, Lit 0x20] @ replicate 5 Digit @
     [Lit 0x2D] @ replicate 4 Digit"

definition celular_regex :: "jsstring \<Rightarrow> bool" where
  "celular_regex s = matches_atoms celular_pattern s"

section \<open>Validation schema\<close>

text \<open>
  \<open>registrationSchema\<close>, lines 12 to 37. A string schema runs its checks in the order
  they are chained, on the value as the earlier checks left it (\<open>trim\<close> replaces the
  value), and collects one issue for each check that fails; the form shows the first
  issue of a field. The issues stand for the messages of the source:
  \<open>TooSmall\<close> for "... deve ter pelo menos 2 caracteres", \<open>TooBig\<close> for
  "... deve ter no maximo 50 caracteres", \<open>OnlyLetters\<close> for "... deve conter apenas letras",
  \<open>InvalidEmail\<close> for "Email invalido", \<open>MissingTakeat\<close> for "Apenas emails com .takeat@
  sao aceitos (ex: arthur.takeat@gmail.com)", \<open>PhoneFormat\<close> for "Celular deve estar no
  formato (99) 99999-9999", and \<open>Required\<close> for the issue of \<open>z.string()\<close> on a value
  that is not a string (a field that was never set is \<open>undefined\<close>).
\<close>

datatype issue =
  Required | TooSmall | TooBig | OnlyLetters | InvalidEmail | MissingTakeat | PhoneFormat

text \<open>One character of the class \<open>[a-zA-Z\<dots>\s]\<close> of line 18, whose third range runs from U+00C0 to U+00FF.\<close>

definition name_char :: "jschar \<Rightarrow> bool" where
  "name_char c \<longleftrightarrow>
     (0x61 \<le> c \<and> c \<le> 0x7A) \<or> (0x41 \<le> c \<and> c \<le> 0x5A) \<or> (0xC0 \<le> c \<and> c \<le> 0xFF) \<or>
     is_whitespace c"

text \<open>The regular expression of lines 18 and 24: one or more characters of the class, anchored.\<close>

definition name_regex :: "jsstring \<Rightarrow> bool" where
  "name_regex s \<longleftrightarrow> s \<noteq> [] \<and> list_all name_char s"

text \<open>The chain \<open>.trim().min(2).max(50).regex(...)\<close> of \<open>nome\<close> and of \<open>sobrenome\<close>.\<close>

definition name_issues :: "jsstring \<Rightarrow> issue list" where
  "name_issues v =
     (let s = trim v in
      (if length s < 2 then [TooSmall] else []) @
      (if 50 < length s then [TooBig] else []) @
      (if \<not> name_regex s then [OnlyLetters] else []))"

definition parse_name :: "jsstring option \<Rightarrow> issue list + jsstring" where
  "parse_name v =
     (case v of
        None \<Rightarrow> Inl [Required]
      | Some x \<Rightarrow> if name_issues x = [] then Inr (trim x) else Inl (name_issues x))"

text \<open>
  The chain \<open>.trim().email().refine(...)\<close> of \<open>email\<close>. What \<open>.email()\<close> accepts is
  decided by the validation library, not by this repository: it is the parameter
  \<open>is_email\<close>.
\<close>

definition email_issues :: "(jsstring \<Rightarrow> bool) \<Rightarrow> jsstring \<Rightarrow> issue list" where
  "email_issues is_email v =
     (let s = trim v in
      (if \<not> is_email s then [InvalidEmail] else []) @
      (if \<not> str_includes (js ''.takeat@'') s then [MissingTakeat] else []))"

definition parse_email :: "(jsstring \<Rightarrow> bool) \<Rightarrow> jsstring option \<Rightarrow> issue list + jsstring" where
  "parse_email is_email v =
     (case v of
        None \<Rightarrow> Inl [Required]
      | Some x \<Rightarrow> if email_issues is_email x = [] then Inr (trim x) else Inl (email_issues is_email x))"

text \<open>The chain of \<open>celular\<close>: the regular expression only, on the value as it is.\<close>

definition parse_celular :: "jsstring option \<Rightarrow> issue list + jsstring" where
  "parse_celular v =
     (case v of
        None \<Rightarrow> Inl [Required]
      | Some x \<Rightarrow> if celular_regex x then Inr x else Inl [PhoneFormat])"

datatype field = Nome | Sobrenome | Email | Celular

type_synonym form_values = "field \<Rightarrow> jsstring option"

definition parse_field ::
  "(jsstring \<Rightarrow> bool) \<Rightarrow> field \<Rightarrow> jsstring option \<Rightarrow> issue list + jsstring" where
  "parse_field is_email f v =
     (case f of
        Nome \<Rightarrow> parse_name v
      | Sobrenome \<Rightarrow> parse_name v
      | Email \<Rightarrow> parse_email is_email v
      | Celular \<Rightarrow> parse_celular v)"

text \<open>A field passes its rule when parsing it gives a value.\<close>

definition field_ok :: "(jsstring \<Rightarrow> bool) \<Rightarrow> field \<Rightarrow> jsstring option \<Rightarrow> bool" where
  "field_ok is_email f v = (case parse_field is_email f v of Inl _ \<Rightarrow> False | Inr _ \<Rightarrow> True)"

text \<open>The error shown beside a field: the first issue, if any.\<close>

definition field_error :: "(jsstring \<Rightarrow> bool) \<Rightarrow> field \<Rightarrow> jsstring option \<Rightarrow> issue option" where
  "field_error is_email f v =
     (case parse_field is_email f v of Inl (i # _) \<Rightarrow> Some i | _ \<Rightarrow> None)"

text \<open>\<open>RegistrationFormData\<close>, line 39; the payload of lines 83 to 88 has the same four keys.\<close>

record RegistrationFormData =
  nome :: jsstring
  sobrenome :: jsstring
  email :: jsstring
  celular :: jsstring

text \<open>The object schema: every field is parsed; the data exist only if all four pass.\<close>

definition registrationSchema ::
  "(jsstring \<Rightarrow> bool) \<Rightarrow> form_values \<Rightarrow> (field \<Rightarrow> issue option) + RegistrationFormData" where
  "registrationSchema is_email vs =
     (case (parse_field is_email Nome (vs Nome), parse_field is_email Sobrenome (vs Sobrenome),
            parse_field is_email Email (vs Email), parse_field is_email Celular (vs Celular)) of
        (Inr n, Inr s, Inr e, Inr c) \<Rightarrow> Inr \<lparr>nome = n, sobrenome = s, email = e, celular = c\<rparr>
      | _ \<Rightarrow> Inl (\<lambda>f. field_error is_email f (vs f)))"

section \<open>Form controller\<close>

datatype SubmitStatus = Idle | Loading | Success | Error

text \<open>
  The state of one \<open>RegistrationForm\<close>: the two \<open>useState\<close> cells of lines 44 and 45,
  the values and errors that \<open>useForm\<close> holds, and two logs of what the component has
  done: the bodies of the requests that \<open>fetch\<close> has sent, and the arguments of the
  calls of \<open>setSubmitStatus\<close>, both oldest first.
\<close>

record form_state =
  submitStatus :: SubmitStatus
  statusMessage :: jsstring
  field_values :: form_values
  errors :: "field \<Rightarrow> issue option"
  requests :: "RegistrationFormData list"
  statusLog :: "SubmitStatus list"

text \<open>The component as mounted: \<open>useState("idle")\<close>, \<open>useState("")\<close>, no default values.\<close>

definition initial_state :: form_state where
  "initial_state =
     \<lparr>submitStatus = Idle, statusMessage = [], field_values = (\<lambda>_. None),
      errors = (\<lambda>_. None), requests = [], statusLog = []\<rparr>"

definition setSubmitStatus :: "SubmitStatus \<Rightarrow> form_state \<Rightarrow> form_state" where
  "setSubmitStatus s st = st\<lparr>submitStatus := s, statusLog := statusLog st @ [s]\<rparr>"

definition setStatusMessage :: "jsstring \<Rightarrow> form_state \<Rightarrow> form_state" where
  "setStatusMessage m st = st\<lparr>statusMessage := m\<rparr>"

text \<open>\<open>reset()\<close> without arguments: back to the default values, of which there are none, and no errors.\<close>

definition reset :: "form_state \<Rightarrow> form_state" where
  "reset st = st\<lparr>field_values := (\<lambda>_. None), errors := (\<lambda>_. None)\<rparr>"

text \<open>What an input shows: \<open>watch("celular") || ""\<close> of line 111, and an empty input after a reset.\<close>

definition shown_value :: "form_state \<Rightarrow> field \<Rightarrow> jsstring" where
  "shown_value st f = (case field_values st f of None \<Rightarrow> [] | Some v \<Rightarrow> v)"

text \<open>\<open>setValue(name, value, { shouldValidate: true })\<close>: stores the value and validates that field.\<close>

definition setValue :: "(jsstring \<Rightarrow> bool) \<Rightarrow> field \<Rightarrow> jsstring \<Rightarrow> form_state \<Rightarrow> form_state" where
  "setValue is_email f v st =
     st\<lparr>field_values := (field_values st)(f \<mapsto> v),
        errors := (errors st)(f := field_error is_email f (Some v))\<rparr>"

text \<open>\<open>handlePhoneChange\<close>, lines 71 to 74; \<open>v\<close> is \<open>e.target.value\<close>.\<close>

definition handlePhoneChange :: "(jsstring \<Rightarrow> bool) \<Rightarrow> jsstring \<Rightarrow> form_state \<Rightarrow> form_state" where
  "handlePhoneChange is_email v st =
     (let formatted = formatPhone v in setValue is_email Celular formatted st)"

text \<open>
  The change handler that \<open>register(name)\<close> gives the three other inputs. It belongs to
  the form library: it stores the value, and the library decides whether the field is
  validated again at once (\<open>revalidate\<close>). It has no access to the two \<open>useState\<close> cells.
\<close>

definition registered_change ::
  "(jsstring \<Rightarrow> bool) \<Rightarrow> bool \<Rightarrow> field \<Rightarrow> jsstring \<Rightarrow> form_state \<Rightarrow> form_state" where
  "registered_change is_email revalidate f v st =
     st\<lparr>field_values := (field_values st)(f \<mapsto> v),
        errors := (if revalidate then (errors st)(f := field_error is_email f (Some v)) else errors st)\<rparr>"

text \<open>The user edits a field: the phone input has its own handler (line 240), the others are registered.\<close>

definition edit_field ::
  "(jsstring \<Rightarrow> bool) \<Rightarrow> bool \<Rightarrow> field \<Rightarrow> jsstring \<Rightarrow> form_state \<Rightarrow> form_state" where
  "edit_field is_email revalidate f v st =
     (if f = Celular then handlePhoneChange is_email v st
      else registered_change is_email revalidate f v st)"

text \<open>
  The call \<open>fetch(url, init)\<close> of lines 92 to 99 either throws before a request is sent,
  or sends the request and returns a promise, which settles later with the outcome of
  the network. The program keeps no reference to the promise.
\<close>

datatype network_outcome = Delivered | Failed

datatype fetch_result = Throws | Sent network_outcome

text \<open>
  \<open>onSubmit\<close>, lines 76 to 109. It has no \<open>await\<close>: it runs to its end in one go. The
  parameter \<open>fetch\<close> is the environment: what the call does for a given payload.
\<close>

definition onSubmit ::
  "(RegistrationFormData \<Rightarrow> fetch_result) \<Rightarrow> RegistrationFormData \<Rightarrow> form_state \<Rightarrow> form_state" where
  "onSubmit fetch data st =
     (let st1 = setSubmitStatus Loading st;
          st2 = setStatusMessage [] st1;
          celularNumbers = strip_non_digits (celular data);
          payload = \<lparr>nome = nome data, sobrenome = sobrenome data, email = email data,
                     celular = celularNumbers\<rparr>
      in case fetch payload of
           Sent _ \<Rightarrow>
             reset (setStatusMessage (js ''Cadastro enviado com sucesso!'')
               (setSubmitStatus Success (st2\<lparr>requests := requests st2 @ [payload]\<rparr>)))
         | Throws \<Rightarrow>
             setStatusMessage (js ''Erro ao enviar. Tente novamente.'') (setSubmitStatus Error st2))"

text \<open>
  \<open>handleSubmit(onSubmit)\<close>, line 145, with the resolver of line 55: the schema runs on
  all the values; if it fails the errors are stored and \<open>onSubmit\<close> is not called, else
  the errors are cleared and \<open>onSubmit\<close> gets the parsed data.
\<close>

definition handleSubmit ::
  "(jsstring \<Rightarrow> bool) \<Rightarrow> (RegistrationFormData \<Rightarrow> fetch_result) \<Rightarrow> form_state \<Rightarrow> form_state" where
  "handleSubmit is_email fetch st =
     (case registrationSchema is_email (field_values st) of
        Inl errs \<Rightarrow> st\<lparr>errors := errs\<rparr>
      | Inr data \<Rightarrow> onSubmit fetch data (st\<lparr>errors := (\<lambda>_. None)\<rparr>))"

text \<open>The promise of a sent request settles: no handler is attached to it, nothing changes.\<close>

definition request_settled :: "network_outcome \<Rightarrow> form_state \<Rightarrow> form_state" where
  "request_settled outcome st = st"

section \<open>Inputs of the examples\<close>

text \<open>
  To run the program on the examples of the specification the two parameters need
  values. \<open>sample_is_email\<close> stands in for the library's check (any check that accepts
  the addresses of the examples would do): one \<open>@\<close>, something before it and a dot
  after it. The three environments send and deliver, send and lose, or throw.
\<close>

definition sample_is_email :: "jsstring \<Rightarrow> bool" where
  "sample_is_email s \<longleftrightarrow>
     length (filter (\<lambda>c. c = 0x40) s) = 1 \<and> takeWhile (\<lambda>c. c \<noteq> 0x40) s \<noteq> [] \<and>
     0x2E \<in> set (dropWhile (\<lambda>c. c \<noteq> 0x40) s)"

definition fetch_delivers :: "RegistrationFormData \<Rightarrow> fetch_result" where
  "fetch_delivers p = Sent Delivered"

definition fetch_fails :: "RegistrationFormData \<Rightarrow> fetch_result" where
  "fetch_fails p = Sent Failed"

definition fetch_throws :: "RegistrationFormData \<Rightarrow> fetch_result" where
  "fetch_throws p = Throws"

text \<open>The values of the end-to-end example, and the same with the address that lacks the token.\<close>

definition example_values :: form_values where
  "example_values f =
     Some (case f of
             Nome \<Rightarrow> js ''Arthur''
           | Sobrenome \<Rightarrow> js ''Takeat''
           | Email \<Rightarrow> js ''arthur.takeat@gmail.com''
           | Celular \<Rightarrow> js ''(11) 98765-4321'')"

definition example_payload :: RegistrationFormData where
  "example_payload =
     \<lparr>nome = js ''Arthur'', sobrenome = js ''Takeat'', email = js ''arthur.takeat@gmail.com'',
      celular = js ''11987654321''\<rparr>"

definition bad_email_values :: form_values where
  "bad_email_values = example_values(Email \<mapsto> js ''arthur@gmail.com'')"

definition filled_form :: form_state where
  "filled_form = initial_state\<lparr>field_values := example_values\<rparr>"

definition bad_email_form :: form_state where
  "bad_email_form = initial_state\<lparr>field_values := bad_email_values\<rparr>"

text \<open>The form after the example was submitted, and after a submission whose \<open>fetch\<close> threw.\<close>

definition submitted_form :: form_state where
  "submitted_form = handleSubmit sample_is_email fetch_delivers filled_form"

definition failed_form :: form_state where
  "failed_form = handleSubmit sample_is_email fetch_throws filled_form"

text \<open>
  The letters of the specification's name rule ("a letter, including accented Latin
  letters"): the characters that Unicode names Latin letters, plain, accented or
  ligatures, of the blocks Basic Latin, Latin-1 Supplement (U+00C0 to U+00FF without
  the multiplication sign U+00D7 and the division sign U+00F7), Latin Extended-A,
  Latin Extended-B (together U+0100 to U+024F) and Latin Extended Additional (U+1E00
  to U+1EFF). The specification's "space" is the character U+0020.
\<close>

definition latin_letter :: "jschar \<Rightarrow> bool" where
  "latin_letter c \<longleftrightarrow>
     (0x41 \<le> c \<and> c \<le> 0x5A) \<or> (0x61 \<le> c \<and> c \<le> 0x7A) \<or>
     (0xC0 \<le> c \<and> c \<le> 0xFF \<and> c \<noteq> 0xD7 \<and> c \<noteq> 0xF7) \<or>
     (0x100 \<le> c \<and> c \<le> 0x24F) \<or> (0x1E00 \<le> c \<and> c \<le> 0x1EFF)"

section \<open>Properties of the phone mask\<close>

lemma js_paren [simp]: "js ''('' = [0x28]"
  by (simp add: js_def)

lemma js_close [simp]: "js '') '' = [0x29, 0x20]"
  by (simp add: js_def)

lemma js_hyphen [simp]: "js ''-'' = [0x2D]"
  by (simp add: js_def)

lemma mask_chars_not_digits [simp]:
  "\<not> is_digit 0x28" "\<not> is_digit 0x29" "\<not> is_digit 0x20" "\<not> is_digit 0x2D"
  by (simp_all add: is_digit_def)

lemma strip_Nil [simp]: "strip_non_digits [] = []"
  by (simp add: strip_non_digits_def)

lemma strip_Cons [simp]:
  "strip_non_digits (c # cs) = (if is_digit c then c # strip_non_digits cs else strip_non_digits cs)"
  by (simp add: strip_non_digits_def)

lemma strip_digits_only [simp]: "strip_non_digits (strip_non_digits v) = strip_non_digits v"
  by (simp add: strip_non_digits_def)

lemma strip_id: "(\<And>c. c \<in> set xs \<Longrightarrow> is_digit c) \<Longrightarrow> strip_non_digits xs = xs"
  unfolding strip_non_digits_def by (rule filter_True) simp

lemma digits_of_take: "strip_non_digits (take n (strip_non_digits v)) = take n (strip_non_digits v)"
  by (rule strip_id) (auto simp: strip_non_digits_def dest: in_set_takeD)

lemma digits_of_drop: "strip_non_digits (drop n (strip_non_digits v)) = drop n (strip_non_digits v)"
  by (rule strip_id) (auto simp: strip_non_digits_def dest: in_set_dropD)

lemma digits_of_take_drop:
  "strip_non_digits (take n (drop m (strip_non_digits v))) = take n (drop m (strip_non_digits v))"
  by (rule strip_id) (auto simp: strip_non_digits_def dest!: in_set_takeD in_set_dropD)

lemma strip_append [simp]: "strip_non_digits (a @ b) = strip_non_digits a @ strip_non_digits b"
  by (simp add: strip_non_digits_def)

lemma take_11_split: "take 11 ds = take 2 ds @ take 5 (drop 2 ds) @ take 4 (drop 7 ds)"
proof -
  have "take (2 + 9) ds = take 2 ds @ take 9 (drop 2 ds)"
    by (rule take_add)
  moreover have "take (5 + 4) (drop 2 ds) = take 5 (drop 2 ds) @ take 4 (drop 5 (drop 2 ds))"
    by (rule take_add)
  ultimately show ?thesis by simp
qed

text \<open>The digits of a masked value are the first eleven digits of the input.\<close>

lemma digits_of_formatPhone:
  "strip_non_digits (formatPhone v) = take 11 (strip_non_digits v)"
proof -
  define ds where "ds = strip_non_digits v"
  have t: "\<And>n. strip_non_digits (take n ds) = take n ds"
    and d: "\<And>n. strip_non_digits (drop n ds) = drop n ds"
    and td: "\<And>n m. strip_non_digits (take n (drop m ds)) = take n (drop m ds)"
    unfolding ds_def by (rule digits_of_take digits_of_drop digits_of_take_drop)+
  have s: "strip_non_digits ds = ds"
    by (simp add: ds_def)
  consider "length ds \<le> 2" | "2 < length ds" "length ds \<le> 7" | "7 < length ds"
    by linarith
  then show ?thesis
  proof cases
    case 1
    then show ?thesis
      by (simp add: formatPhone_def Let_def ds_def [symmetric] s)
  next
    case 2
    have "take 2 ds @ drop 2 ds = take 11 ds"
      using 2 by simp
    with 2 show ?thesis
      by (simp add: formatPhone_def Let_def ds_def [symmetric] slice_def slice_from_def t d)
  next
    case 3
    have "take 2 ds @ take 5 (drop 2 ds) @ take 4 (drop 7 ds) = take 11 ds"
      by (rule take_11_split [symmetric])
    with 3 show ?thesis
      by (simp add: formatPhone_def Let_def ds_def [symmetric] slice_def slice_from_def t td)
  qed
qed

lemma formatPhone_digits_cong:
  assumes "strip_non_digits a = take 11 (strip_non_digits b)"
  shows "formatPhone a = formatPhone b"
proof -
  define ds where "ds = strip_non_digits b"
  have a: "strip_non_digits a = take 11 ds"
    using assms by (simp add: ds_def)
  consider "length ds \<le> 2" | "2 < length ds" "length ds \<le> 7" | "7 < length ds"
    by linarith
  then show ?thesis
  proof cases
    case 1
    then show ?thesis
      by (simp add: formatPhone_def Let_def a ds_def [symmetric])
  next
    case 2
    then show ?thesis
      by (simp add: formatPhone_def Let_def a ds_def [symmetric])
  next
    case 3
    then show ?thesis
      by (simp add: formatPhone_def Let_def a ds_def [symmetric] slice_def min_def drop_take)
  qed
qed

lemma length_formatPhone:
  "length (formatPhone v) =
     (let n = length (strip_non_digits v) in
      if n = 0 then 0 else if n \<le> 2 then n + 1 else if n \<le> 7 then n + 3 else 4 + min n 11)"
  by (auto simp: formatPhone_def Let_def slice_def slice_from_def min_def)

lemma strip_all_digits: "c \<in> set (strip_non_digits v) \<Longrightarrow> is_digit c"
  by (simp add: strip_non_digits_def)

text \<open>
  C1. The mask removes every character that is not a digit; with \<open>n\<close> digits left it
  returns the empty string for \<open>n = 0\<close>, an opening parenthesis and the digits for
  \<open>n\<close> of 1 or 2, the first two digits in parentheses, a space and the other digits for
  \<open>n\<close> from 3 to 7, and from 8 digits on the first two digits in parentheses, a space,
  the next five digits, a hyphen and the digits up to the eleventh (so one to four of
  them); the digits after the eleventh do not matter, and the input "11987654321999"
  gives "(11) 98765-4321".
\<close>

theorem formatPhone_mask:
  "(let ds = strip_non_digits v; n = length ds in
     (n = 0 \<longrightarrow> formatPhone v = []) \<and>
     (1 \<le> n \<and> n \<le> 2 \<longrightarrow> formatPhone v = js ''('' @ ds) \<and>
     (3 \<le> n \<and> n \<le> 7 \<longrightarrow> formatPhone v = js ''('' @ take 2 ds @ js '') '' @ drop 2 ds) \<and>
     (8 \<le> n \<longrightarrow>
        formatPhone v =
          js ''('' @ take 2 ds @ js '') '' @ take 5 (drop 2 ds) @ js ''-'' @ take 4 (drop 7 ds) \<and>
        length (take 4 (drop 7 ds)) = min n 11 - 7 \<and>
        formatPhone v = formatPhone (take 11 ds))) \<and>
   formatPhone (js ''11987654321999'') = js ''(11) 98765-4321''"
proof -
  define ds where "ds = strip_non_digits v"
  have "formatPhone (take 11 ds) = formatPhone v"
    by (rule formatPhone_digits_cong) (simp add: ds_def digits_of_take)
  moreover have "formatPhone (js ''11987654321999'') = js ''(11) 98765-4321''"
    by (simp add: formatPhone_def js_def is_digit_def slice_def)
  ultimately show ?thesis
    by (auto simp: formatPhone_def Let_def slice_def slice_from_def ds_def [symmetric])
qed

theorem formatPhone_mask_witness:
  "formatPhone (js ''abc'') = [] \<and>
   formatPhone (js ''a1b'') = js ''(1'' \<and>
   formatPhone (js ''11-9 87'') = js ''(11) 987'' \<and>
   formatPhone (js ''11 9876 5432'') = js ''(11) 98765-432'' \<and>
   formatPhone (js ''11987654321999'') = js ''(11) 98765-4321''"
  using formatPhone_mask [of "js ''abc''"] formatPhone_mask [of "js ''a1b''"]
    formatPhone_mask [of "js ''11-9 87''"] formatPhone_mask [of "js ''11 9876 5432''"]
  by (simp add: js_def is_digit_def Let_def)

text \<open>
  C2. The mask is idempotent: applied to its own output it returns that output, for
  every input string.
\<close>

theorem formatPhone_idempotent: "formatPhone (formatPhone x) = formatPhone x"
  by (rule formatPhone_digits_cong) (rule digits_of_formatPhone)

theorem formatPhone_idempotent_witness:
  "formatPhone (js ''(11) 98765-4321'') = js ''(11) 98765-4321'' \<and>
   formatPhone (js ''11987654321999'') = js ''(11) 98765-4321''"
proof -
  have "formatPhone (js ''11987654321999'') = js ''(11) 98765-4321''"
    by (simp add: formatPhone_def js_def is_digit_def slice_def)
  then show ?thesis
    using formatPhone_idempotent [of "js ''11987654321999''"] by simp
qed

section \<open>The phone rule on masked values\<close>

lemma matches_atoms_length: "matches_atoms ps s \<Longrightarrow> length s = length ps"
  by (induction ps s rule: matches_atoms.induct) auto

lemma matches_atoms_append:
  "length s = length ps \<Longrightarrow>
   matches_atoms (ps @ qs) (s @ t) \<longleftrightarrow> matches_atoms ps s \<and> matches_atoms qs t"
  by (induction ps s rule: matches_atoms.induct) auto

lemma matches_digits:
  "matches_atoms (replicate k Digit) s \<longleftrightarrow> length s = k \<and> (\<forall>c \<in> set s. is_digit c)"
proof (induction k arbitrary: s)
  case 0
  then show ?case by (cases s) auto
next
  case (Suc k)
  then show ?case by (cases s) auto
qed

lemma length_celular_pattern: "length celular_pattern = 15"
  by (simp add: celular_pattern_def)

lemma celular_pattern_atoms:
  "celular_pattern =
     [Lit 0x28, Digit, Digit, Lit 0x29, Lit 0x20, Digit, Digit, Digit, Digit, Digit, Lit 0x2D,
      Digit, Digit, Digit, Digit]"
  by (simp add: celular_pattern_def eval_nat_numeral)

text \<open>
  C10. For every input string, the output of the mask matches the pattern of the phone
  rule (parenthesis, two digits, parenthesis, space, five digits, hyphen, four digits)
  if and only if the input holds at least eleven digits.
\<close>

theorem mask_passes_iff_eleven_digits:
  "celular_regex (formatPhone x) \<longleftrightarrow> 11 \<le> length (strip_non_digits x)"
proof
  assume "celular_regex (formatPhone x)"
  then have "length (formatPhone x) = 15"
    unfolding celular_regex_def
    by (auto dest: matches_atoms_length simp: length_celular_pattern)
  then show "11 \<le> length (strip_non_digits x)"
    by (simp add: length_formatPhone Let_def split: if_splits)
next
  define ds where "ds = strip_non_digits x"
  assume "11 \<le> length (strip_non_digits x)"
  then have n: "11 \<le> length ds"
    by (simp add: ds_def)
  have dig: "\<And>c n m. c \<in> set (take n (drop m ds)) \<Longrightarrow> is_digit c"
    unfolding ds_def by (auto dest!: in_set_takeD in_set_dropD strip_all_digits)
  have dig2: "\<And>c n. c \<in> set (take n ds) \<Longrightarrow> is_digit c"
    unfolding ds_def by (auto dest!: in_set_takeD strip_all_digits)
  have f: "formatPhone x =
      [0x28] @ take 2 ds @ [0x29, 0x20] @ take 5 (drop 2 ds) @ [0x2D] @ take 4 (drop 7 ds)"
    using n by (simp add: formatPhone_def Let_def ds_def [symmetric] slice_def)
  have "matches_atoms celular_pattern
      ([0x28] @ take 2 ds @ [0x29, 0x20] @ take 5 (drop 2 ds) @ [0x2D] @ take 4 (drop 7 ds))"
    unfolding celular_pattern_def
    using n by (simp add: matches_atoms_append matches_digits dig dig2)
  then show "celular_regex (formatPhone x)"
    by (simp add: celular_regex_def f)
qed

theorem mask_passes_iff_eleven_digits_witness:
  "celular_regex (formatPhone (js ''11987654321'')) \<and>
   \<not> celular_regex (formatPhone (js ''1198765432''))"
  using mask_passes_iff_eleven_digits [of "js ''11987654321''"]
    mask_passes_iff_eleven_digits [of "js ''1198765432''"]
  by (simp add: js_def is_digit_def)

section \<open>The name and email rules\<close>

lemma starts_with_iff: "starts_with t s \<longleftrightarrow> (\<exists>q. s = t @ q)"
  by (induction t s rule: starts_with.induct) auto

lemma str_includes_iff: "str_includes t s \<longleftrightarrow> (\<exists>p q. s = p @ t @ q)"
proof (induction s)
  case Nil
  then show ?case by simp
next
  case (Cons c cs)
  show ?case
  proof
    assume "str_includes t (c # cs)"
    then consider "starts_with t (c # cs)" | "str_includes t cs"
      by auto
    then show "\<exists>p q. c # cs = p @ t @ q"
    proof cases
      case 1
      then obtain q where "c # cs = [] @ t @ q"
        by (auto simp: starts_with_iff)
      then show ?thesis by blast
    next
      case 2
      then obtain p q where "cs = p @ t @ q"
        using Cons.IH by blast
      then have "c # cs = (c # p) @ t @ q"
        by simp
      then show ?thesis by blast
    qed
  next
    assume "\<exists>p q. c # cs = p @ t @ q"
    then obtain p q where pq: "c # cs = p @ t @ q"
      by blast
    show "str_includes t (c # cs)"
    proof (cases p)
      case Nil
      with pq have "starts_with t (c # cs)"
        by (auto simp: starts_with_iff)
      then show ?thesis by simp
    next
      case (Cons a p')
      with pq have "cs = p' @ t @ q"
        by simp
      then have "str_includes t cs"
        using Cons.IH by blast
      then show ?thesis by simp
    qed
  qed
qed

lemma field_ok_Nome: "field_ok is_email Nome (Some x) \<longleftrightarrow> name_issues x = []"
  by (simp add: field_ok_def parse_field_def parse_name_def)

lemma field_ok_Sobrenome: "field_ok is_email Sobrenome (Some x) \<longleftrightarrow> name_issues x = []"
  by (simp add: field_ok_def parse_field_def parse_name_def)

lemma field_ok_Email: "field_ok is_email Email (Some x) \<longleftrightarrow> email_issues is_email x = []"
  by (simp add: field_ok_def parse_field_def parse_email_def)

lemma field_ok_Celular: "field_ok is_email Celular (Some x) \<longleftrightarrow> celular_regex x"
  by (simp add: field_ok_def parse_field_def parse_celular_def)

lemma field_ok_None: "\<not> field_ok is_email f None"
  by (cases f) (simp_all add: field_ok_def parse_field_def parse_name_def parse_email_def parse_celular_def)

lemma name_issues_Nil:
  "name_issues x = [] \<longleftrightarrow>
     2 \<le> length (trim x) \<and> length (trim x) \<le> 50 \<and> (\<forall>c \<in> set (trim x). name_char c)"
  by (auto simp: name_issues_def Let_def name_regex_def list_all_iff)

lemma length_trim_le: "length (trim x) \<le> length x"
proof -
  have "length (trim x) \<le> length (rev (dropWhile is_whitespace x))"
    unfolding trim_def length_rev [of "dropWhile _ (rev _)"] by (rule length_dropWhile_le)
  also have "\<dots> \<le> length x"
    by (simp add: length_dropWhile_le)
  finally show ?thesis .
qed

lemma set_trim_subset: "set (trim x) \<subseteq> set x"
  unfolding trim_def by (auto dest!: set_dropWhileD)

text \<open>
  Apart from the two signs, the pattern's class holds the Latin letters up to U+00FF and
  white space: no letter above U+00FF, and more than the space character.
\<close>

lemma letter_up_to_FF:
  "latin_letter c \<and> c \<le> 0xFF \<longleftrightarrow>
     (0x41 \<le> c \<and> c \<le> 0x5A) \<or> (0x61 \<le> c \<and> c \<le> 0x7A) \<or>
     (0xC0 \<le> c \<and> c \<le> 0xFF \<and> c \<noteq> 0xD7 \<and> c \<noteq> 0xF7)"
  by (auto simp: latin_letter_def word_le_nat_alt)

lemma name_char_letter:
  "c \<noteq> 0xD7 \<Longrightarrow> c \<noteq> 0xF7 \<Longrightarrow>
   name_char c \<longleftrightarrow> (latin_letter c \<and> c \<le> 0xFF) \<or> is_whitespace c"
  unfolding letter_up_to_FF by (auto simp: name_char_def)

lemma in_set_dropWhile: "c \<in> set xs \<Longrightarrow> \<not> P c \<Longrightarrow> c \<in> set (dropWhile P xs)"
  by (induction xs) auto

lemma nonspace_in_trim:
  assumes "c \<in> set x" and "\<not> is_whitespace c"
  shows "c \<in> set (trim x)"
proof -
  have "c \<in> set (rev (dropWhile is_whitespace x))"
    using assms by (simp add: in_set_dropWhile)
  then have "c \<in> set (dropWhile is_whitespace (rev (dropWhile is_whitespace x)))"
    using assms(2) by (rule in_set_dropWhile)
  then show ?thesis
    by (simp add: trim_def)
qed

lemma digit_not_name_char: "is_digit c \<Longrightarrow> \<not> name_char c"
  by (auto simp: is_digit_def name_char_def is_whitespace_def word_le_nat_alt)

text \<open>
  Apart from the two signs, a character that is neither a Latin letter up to U+00FF nor
  white space, a digit or a letter above U+00FF among them, makes both name rules fail.
\<close>

lemma name_rule_rejects_other_characters:
  assumes "c \<in> set x"
    and "is_digit c \<or>
      (\<not> (latin_letter c \<and> c \<le> 0xFF) \<and> \<not> is_whitespace c \<and> c \<noteq> 0xD7 \<and> c \<noteq> 0xF7)"
  shows "\<not> field_ok is_email Nome (Some x) \<and> \<not> field_ok is_email Sobrenome (Some x)"
proof -
  have n: "\<not> name_char c"
    using assms(2) digit_not_name_char [of c] name_char_letter [of c] by blast
  then have "\<not> is_whitespace c"
    by (simp add: name_char_def)
  with assms(1) have "c \<in> set (trim x)"
    by (rule nonspace_in_trim)
  with n have "name_issues x \<noteq> []"
    by (auto simp: name_issues_Nil)
  then show ?thesis
    by (simp add: field_ok_Nome field_ok_Sobrenome)
qed

text \<open>
  C3, as the claim states it, fails in three ways. A string of raw length 51, one space
  and fifty letters \<open>a\<close>, passes the rule of both name fields: the length is checked
  after trimming. The six letters of the name Lukasz written with L with stroke, U+0141,
  an accented Latin letter, are rejected: the pattern has no letter above U+00FF. The
  three characters \<open>a\<close>, tab, \<open>b\<close> pass, and the tab is neither a letter nor a space:
  the pattern takes every white space character.
\<close>

theorem name_rule_counterexamples:
  "length (0x20 # replicate 50 (0x61 :: jschar)) = 51 \<and>
   field_ok sample_is_email Nome (Some (0x20 # replicate 50 0x61)) \<and>
   field_ok sample_is_email Sobrenome (Some (0x20 # replicate 50 0x61)) \<and>
   list_all latin_letter [0x141, 0x75, 0x6B, 0x61, 0x73, 0x7A] \<and>
   trim [0x141, 0x75, 0x6B, 0x61, 0x73, 0x7A] = [0x141, 0x75, 0x6B, 0x61, 0x73, 0x7A] \<and>
   \<not> field_ok sample_is_email Nome (Some [0x141, 0x75, 0x6B, 0x61, 0x73, 0x7A]) \<and>
   \<not> field_ok sample_is_email Sobrenome (Some [0x141, 0x75, 0x6B, 0x61, 0x73, 0x7A]) \<and>
   \<not> latin_letter 0x09 \<and> (0x09 :: jschar) \<noteq> 0x20 \<and>
   field_ok sample_is_email Nome (Some [0x61, 0x09, 0x62]) \<and>
   field_ok sample_is_email Sobrenome (Some [0x61, 0x09, 0x62])"
proof -
  have long: "field_ok sample_is_email f (Some (0x20 # replicate 50 0x61))"
    if "f = Nome \<or> f = Sobrenome" for f
    using that
    by (auto simp: field_ok_def parse_field_def parse_name_def name_issues_def trim_def
        is_whitespace_def name_regex_def name_char_def list_all_iff)
  have stroke: "\<not> field_ok sample_is_email f (Some [0x141, 0x75, 0x6B, 0x61, 0x73, 0x7A])"
    if "f = Nome \<or> f = Sobrenome" for f
    using that
    by (auto simp: field_ok_def parse_field_def parse_name_def name_issues_def trim_def
        is_whitespace_def name_regex_def name_char_def)
  have tab: "field_ok sample_is_email f (Some [0x61, 0x09, 0x62])"
    if "f = Nome \<or> f = Sobrenome" for f
    using that
    by (auto simp: field_ok_def parse_field_def parse_name_def name_issues_def trim_def
        is_whitespace_def name_regex_def name_char_def)
  have letters: "list_all latin_letter [0x141, 0x75, 0x6B, 0x61, 0x73, 0x7A]"
    "\<not> latin_letter 0x09"
    by (simp_all add: latin_letter_def)
  have "trim [0x141, 0x75, 0x6B, 0x61, 0x73, 0x7A] = [0x141, 0x75, 0x6B, 0x61, 0x73, 0x7A :: jschar]"
    by (simp add: trim_def is_whitespace_def)
  with long stroke tab letters show ?thesis
    by simp
qed

text \<open>
  C3, amended. For an input without the signs U+00D7 and U+00F7, the rules of the first
  name and of the last name pass exactly when the trimmed input has a length from 2 to
  50 and each of its characters is a letter no higher than U+00FF (an ASCII letter or
  an accented Latin letter of U+00C0 to U+00FF) or a white space character. For every
  input, a raw length of 0 or 1 and a trimmed length above 50 are rejected.
\<close>

theorem name_rule_trimmed:
  "((\<forall>c \<in> set x. c \<noteq> 0xD7 \<and> c \<noteq> 0xF7) \<longrightarrow>
      (field_ok is_email Nome (Some x) \<longleftrightarrow>
         2 \<le> length (trim x) \<and> length (trim x) \<le> 50 \<and>
         (\<forall>c \<in> set (trim x). (latin_letter c \<and> c \<le> 0xFF) \<or> is_whitespace c)) \<and>
      (field_ok is_email Sobrenome (Some x) \<longleftrightarrow>
         2 \<le> length (trim x) \<and> length (trim x) \<le> 50 \<and>
         (\<forall>c \<in> set (trim x). (latin_letter c \<and> c \<le> 0xFF) \<or> is_whitespace c))) \<and>
   (length x \<le> 1 \<or> 50 < length (trim x) \<longrightarrow>
      \<not> field_ok is_email Nome (Some x) \<and> \<not> field_ok is_email Sobrenome (Some x))"
proof -
  have short: "\<not> 2 \<le> length (trim x)" if "length x \<le> 1"
    using that length_trim_le [of x] by simp
  have "name_issues x = [] \<longleftrightarrow>
      2 \<le> length (trim x) \<and> length (trim x) \<le> 50 \<and>
      (\<forall>c \<in> set (trim x). (latin_letter c \<and> c \<le> 0xFF) \<or> is_whitespace c)"
    if "\<forall>c \<in> set x. c \<noteq> 0xD7 \<and> c \<noteq> 0xF7"
  proof -
    have "name_char c \<longleftrightarrow> (latin_letter c \<and> c \<le> 0xFF) \<or> is_whitespace c"
      if "c \<in> set (trim x)" for c
      using that \<open>\<forall>c \<in> set x. c \<noteq> 0xD7 \<and> c \<noteq> 0xF7\<close> set_trim_subset [of x]
      by (intro name_char_letter) auto
    then show ?thesis
      by (auto simp: name_issues_Nil)
  qed
  moreover have "name_issues x \<noteq> []" if "length x \<le> 1 \<or> 50 < length (trim x)"
    using that short by (auto simp: name_issues_Nil)
  ultimately show ?thesis
    by (simp add: field_ok_Nome field_ok_Sobrenome)
qed

theorem name_rule_trimmed_witness:
  "field_ok sample_is_email Nome (Some (js ''  Maria Jos'' @ [0xE9] @ js '' ''))
   \<and> \<not> field_ok sample_is_email Sobrenome (Some (js ''Ana1''))
   \<and> \<not> field_ok sample_is_email Nome (Some (js ''a''))
   \<and> \<not> field_ok sample_is_email Nome (Some (replicate 51 0x61))
   \<and> \<not> field_ok sample_is_email Nome (Some [0x141, 0x75, 0x6B, 0x61, 0x73, 0x7A])
   \<and> field_ok sample_is_email Sobrenome (Some [0x61, 0x09, 0x62])"
  using name_rule_trimmed [of "js ''  Maria Jos'' @ [0xE9] @ js '' ''" sample_is_email]
    name_rule_trimmed [of "js ''Ana1''" sample_is_email]
    name_rule_trimmed [of "js ''a''" sample_is_email]
    name_rule_trimmed [of "replicate 51 0x61" sample_is_email]
    name_rule_trimmed [of "[0x141, 0x75, 0x6B, 0x61, 0x73, 0x7A]" sample_is_email]
    name_rule_trimmed [of "[0x61, 0x09, 0x62]" sample_is_email]
  by (simp add: js_def trim_def is_whitespace_def latin_letter_def)

text \<open>
  C9. The claim is that a name with a symbol that is neither a letter nor a space is
  rejected. The program accepts the two-character name made of the letter \<open>a\<close> and the
  multiplication sign U+00D7, which is not a letter and not white space: the range of
  accented letters in the pattern also spans that sign (and the division sign U+00F7).
\<close>

theorem name_rule_accepts_times_sign:
  "parse_name (Some [0x61, 0xD7]) = Inr [0x61, 0xD7] \<and>
   field_ok sample_is_email Nome (Some [0x61, 0xD7]) \<and>
   field_ok sample_is_email Sobrenome (Some [0x61, 0xD7]) \<and>
   \<not> latin_letter 0xD7 \<and> \<not> is_whitespace 0xD7"
  by (simp add: field_ok_def parse_field_def parse_name_def name_issues_def trim_def
      is_whitespace_def name_regex_def name_char_def latin_letter_def)

text \<open>
  C4. The email rule passes an input exactly when the trimmed input is accepted by the
  library's email check and contains ".takeat@"; "foo@gmail.com" is rejected
  whatever the check says, and "foo.takeat@gmail.com" passes as soon as the check
  accepts it as an email address.
\<close>

theorem email_rule:
  "(field_ok is_email Email (Some x) \<longleftrightarrow>
      is_email (trim x) \<and> (\<exists>p q. trim x = p @ js ''.takeat@'' @ q)) \<and>
   \<not> field_ok is_email Email (Some (js ''foo@gmail.com'')) \<and>
   (is_email (js ''foo.takeat@gmail.com'') \<longrightarrow>
      field_ok is_email Email (Some (js ''foo.takeat@gmail.com'')))"
proof -
  have iff: "field_ok is_email Email (Some y) \<longleftrightarrow>
      is_email (trim y) \<and> (\<exists>p q. trim y = p @ js ''.takeat@'' @ q)" for y
    by (auto simp: field_ok_Email email_issues_def Let_def str_includes_iff)
  have t1: "trim (js ''foo@gmail.com'') = js ''foo@gmail.com''"
    by (simp add: js_def trim_def is_whitespace_def)
  have t2: "trim (js ''foo.takeat@gmail.com'') = js ''foo.takeat@gmail.com''"
    by (simp add: js_def trim_def is_whitespace_def)
  have "\<not> str_includes (js ''.takeat@'') (js ''foo@gmail.com'')"
    by (simp add: js_def)
  then have "\<not> field_ok is_email Email (Some (js ''foo@gmail.com''))"
    by (simp add: field_ok_Email email_issues_def Let_def t1)
  moreover have "str_includes (js ''.takeat@'') (js ''foo.takeat@gmail.com'')"
    by (simp add: js_def)
  then have "is_email (js ''foo.takeat@gmail.com'') \<longrightarrow>
      field_ok is_email Email (Some (js ''foo.takeat@gmail.com''))"
    by (simp add: field_ok_Email email_issues_def Let_def t2)
  ultimately show ?thesis
    using iff by blast
qed

theorem email_rule_witness:
  "sample_is_email (js ''foo.takeat@gmail.com'') \<and>
   field_ok sample_is_email Email (Some (js ''foo.takeat@gmail.com'')) \<and>
   \<not> field_ok sample_is_email Email (Some (js ''foo@gmail.com''))"
proof -
  have h: "sample_is_email (js ''foo.takeat@gmail.com'')"
    by (simp add: sample_is_email_def js_def)
  have "\<not> field_ok sample_is_email Email (Some (js ''foo@gmail.com'')) \<and>
      (sample_is_email (js ''foo.takeat@gmail.com'') \<longrightarrow>
         field_ok sample_is_email Email (Some (js ''foo.takeat@gmail.com'')))"
    by (rule email_rule [of sample_is_email "js ''foo.takeat@gmail.com''", THEN conjunct2])
  with h show ?thesis
    by blast
qed

section \<open>The form controller\<close>

lemma registrationSchema_invalid:
  assumes "\<not> field_ok is_email f (vs f)"
  shows "registrationSchema is_email vs = Inl (\<lambda>g. field_error is_email g (vs g))"
  using assms
  by (cases f) (auto simp: registrationSchema_def field_ok_def split: sum.splits)

lemma registrationSchema_valid:
  "registrationSchema is_email vs = Inr data \<longleftrightarrow>
     parse_field is_email Nome (vs Nome) = Inr (nome data) \<and>
     parse_field is_email Sobrenome (vs Sobrenome) = Inr (sobrenome data) \<and>
     parse_field is_email Email (vs Email) = Inr (email data) \<and>
     parse_field is_email Celular (vs Celular) = Inr (celular data)"
  by (cases data) (auto simp: registrationSchema_def split: sum.splits)

lemma parse_issues_nonempty: "parse_field is_email f v = Inl found \<Longrightarrow> found \<noteq> []"
  by (cases f)
    (auto simp: parse_field_def parse_name_def parse_email_def parse_celular_def
      split: option.splits if_splits)

lemma field_error_iff: "field_error is_email f v \<noteq> None \<longleftrightarrow> \<not> field_ok is_email f v"
proof (cases "parse_field is_email f v")
  case (Inl found)
  then have "found \<noteq> []"
    by (rule parse_issues_nonempty)
  then obtain i rest where "found = i # rest"
    by (cases found) auto
  with Inl show ?thesis
    by (simp add: field_error_def field_ok_def)
next
  case (Inr a)
  then show ?thesis
    by (simp add: field_error_def field_ok_def)
qed

lemma handleSubmit_invalid:
  assumes "\<not> field_ok is_email f (field_values st f)"
  shows "handleSubmit is_email fetch st =
     st\<lparr>errors := (\<lambda>g. field_error is_email g (field_values st g))\<rparr>"
  using registrationSchema_invalid [of is_email f "field_values st"] assms
  by (simp add: handleSubmit_def)

lemma handleSubmit_valid:
  assumes "registrationSchema is_email (field_values st) = Inr data"
  shows "handleSubmit is_email fetch st = onSubmit fetch data (st\<lparr>errors := (\<lambda>_. None)\<rparr>)"
  by (simp add: handleSubmit_def assms)

lemma trim_Arthur: "trim (js ''Arthur'') = js ''Arthur''"
  by (simp add: js_def trim_def is_whitespace_def)

lemma trim_Takeat: "trim (js ''Takeat'') = js ''Takeat''"
  by (simp add: js_def trim_def is_whitespace_def)

lemma trim_good_email: "trim (js ''arthur.takeat@gmail.com'') = js ''arthur.takeat@gmail.com''"
  by (simp add: js_def trim_def is_whitespace_def)

lemma trim_bad_email: "trim (js ''arthur@gmail.com'') = js ''arthur@gmail.com''"
  by (simp add: js_def trim_def is_whitespace_def)

lemma parse_Arthur: "parse_name (Some (js ''Arthur'')) = Inr (js ''Arthur'')"
  by (simp add: parse_name_def name_issues_def trim_Arthur)
    (simp add: js_def name_regex_def name_char_def)

lemma parse_Takeat: "parse_name (Some (js ''Takeat'')) = Inr (js ''Takeat'')"
  by (simp add: parse_name_def name_issues_def trim_Takeat)
    (simp add: js_def name_regex_def name_char_def)

lemma parse_good_email:
  "is_email (js ''arthur.takeat@gmail.com'') \<Longrightarrow>
   parse_email is_email (Some (js ''arthur.takeat@gmail.com'')) = Inr (js ''arthur.takeat@gmail.com'')"
  by (simp add: parse_email_def email_issues_def trim_good_email) (simp add: js_def)

lemma parse_bad_email:
  "parse_email is_email (Some (js ''arthur@gmail.com'')) =
     Inl ((if is_email (js ''arthur@gmail.com'') then [] else [InvalidEmail]) @ [MissingTakeat])"
  by (simp add: parse_email_def email_issues_def trim_bad_email) (simp add: js_def)

lemma parse_example_celular:
  "parse_celular (Some (js ''(11) 98765-4321'')) = Inr (js ''(11) 98765-4321'')"
  by (simp add: parse_celular_def celular_regex_def celular_pattern_atoms)
    (simp add: js_def is_digit_def)

lemma strip_example_celular: "strip_non_digits (js ''(11) 98765-4321'') = js ''11987654321''"
  by (simp add: js_def is_digit_def)

lemma schema_example:
  "is_email (js ''arthur.takeat@gmail.com'') \<Longrightarrow>
   registrationSchema is_email example_values =
     Inr \<lparr>nome = js ''Arthur'', sobrenome = js ''Takeat'', email = js ''arthur.takeat@gmail.com'',
      celular = js ''(11) 98765-4321''\<rparr>"
  by (simp add: registrationSchema_valid example_values_def parse_field_def parse_Arthur
      parse_Takeat parse_good_email parse_example_celular)

lemma sample_accepts_example: "sample_is_email (js ''arthur.takeat@gmail.com'')"
  by (simp add: sample_is_email_def js_def)

lemma onSubmit_sent:
  assumes "fetch \<lparr>nome = nome data, sobrenome = sobrenome data, email = email data,
                   celular = strip_non_digits (celular data)\<rparr> = Sent outcome"
  shows "onSubmit fetch data st =
     st\<lparr>submitStatus := Success,
        statusMessage := js ''Cadastro enviado com sucesso!'',
        field_values := (\<lambda>_. None), errors := (\<lambda>_. None),
        requests := requests st @ [\<lparr>nome = nome data, sobrenome = sobrenome data,
          email = email data, celular = strip_non_digits (celular data)\<rparr>],
        statusLog := statusLog st @ [Loading, Success]\<rparr>"
  using assms
  by (simp add: onSubmit_def Let_def setSubmitStatus_def setStatusMessage_def reset_def)

lemma onSubmit_throws:
  assumes "fetch \<lparr>nome = nome data, sobrenome = sobrenome data, email = email data,
                   celular = strip_non_digits (celular data)\<rparr> = Throws"
  shows "onSubmit fetch data st =
     st\<lparr>submitStatus := Error,
        statusMessage := js ''Erro ao enviar. Tente novamente.'',
        statusLog := statusLog st @ [Loading, Error]\<rparr>"
  using assms
  by (simp add: onSubmit_def Let_def setSubmitStatus_def setStatusMessage_def)

text \<open>The example submission, from any state that holds the example's values.\<close>

lemma handleSubmit_example_sent:
  assumes "is_email (js ''arthur.takeat@gmail.com'')"
    and "fetch example_payload = Sent outcome"
    and "field_values st = example_values"
  shows "handleSubmit is_email fetch st =
     st\<lparr>submitStatus := Success,
        statusMessage := js ''Cadastro enviado com sucesso!'',
        field_values := (\<lambda>_. None), errors := (\<lambda>_. None),
        requests := requests st @ [example_payload],
        statusLog := statusLog st @ [Loading, Success]\<rparr>"
proof -
  let ?data = "\<lparr>nome = js ''Arthur'', sobrenome = js ''Takeat'',
    email = js ''arthur.takeat@gmail.com'', celular = js ''(11) 98765-4321''\<rparr>"
  have "registrationSchema is_email (field_values st) = Inr ?data"
    using assms(1,3) by (simp add: schema_example)
  then have h: "handleSubmit is_email fetch st = onSubmit fetch ?data (st\<lparr>errors := (\<lambda>_. None)\<rparr>)"
    by (rule handleSubmit_valid)
  have "fetch \<lparr>nome = nome ?data, sobrenome = sobrenome ?data, email = email ?data,
      celular = strip_non_digits (celular ?data)\<rparr> = Sent outcome"
    using assms(2) by (simp add: example_payload_def strip_example_celular)
  then show ?thesis
    using onSubmit_sent [of fetch ?data outcome "st\<lparr>errors := (\<lambda>_. None)\<rparr>"]
    by (simp add: h example_payload_def strip_example_celular)
qed

lemma handleSubmit_example_throws:
  assumes "is_email (js ''arthur.takeat@gmail.com'')"
    and "fetch example_payload = Throws"
    and "field_values st = example_values"
  shows "handleSubmit is_email fetch st =
     st\<lparr>submitStatus := Error,
        statusMessage := js ''Erro ao enviar. Tente novamente.'',
        errors := (\<lambda>_. None),
        statusLog := statusLog st @ [Loading, Error]\<rparr>"
proof -
  let ?data = "\<lparr>nome = js ''Arthur'', sobrenome = js ''Takeat'',
    email = js ''arthur.takeat@gmail.com'', celular = js ''(11) 98765-4321''\<rparr>"
  have "registrationSchema is_email (field_values st) = Inr ?data"
    using assms(1,3) by (simp add: schema_example)
  then have h: "handleSubmit is_email fetch st = onSubmit fetch ?data (st\<lparr>errors := (\<lambda>_. None)\<rparr>)"
    by (rule handleSubmit_valid)
  have "fetch \<lparr>nome = nome ?data, sobrenome = sobrenome ?data, email = email ?data,
      celular = strip_non_digits (celular ?data)\<rparr> = Throws"
    using assms(2) by (simp add: example_payload_def strip_example_celular)
  then show ?thesis
    using onSubmit_throws [of fetch ?data "st\<lparr>errors := (\<lambda>_. None)\<rparr>"]
    by (simp add: h)
qed

lemma submitStatus_submitted_form: "submitStatus submitted_form = Success"
  unfolding submitted_form_def
  using handleSubmit_example_sent [of sample_is_email fetch_delivers Delivered filled_form]
  by (simp add: sample_accepts_example fetch_delivers_def filled_form_def)

lemma submitStatus_failed_form: "submitStatus failed_form = Error"
  unfolding failed_form_def
  using handleSubmit_example_throws [of sample_is_email fetch_throws filled_form]
  by (simp add: sample_accepts_example fetch_throws_def filled_form_def)

text \<open>
  C5. Submitting the form that holds Arthur, Takeat, arthur.takeat@gmail.com and
  (11) 98765-4321 while the status is idle, when the library's check accepts the address
  and \<open>fetch\<close> sends the request: \<open>setSubmitStatus\<close> is called with loading and then
  with success, exactly one request is added, with the payload of the example whose
  phone is 11987654321, the status message is the confirmation string, and the four
  field values are cleared.
\<close>

theorem submit_example:
  assumes "is_email (js ''arthur.takeat@gmail.com'')"
    and "fetch example_payload = Sent outcome"
    and "submitStatus st = Idle"
    and "field_values st = example_values"
  shows "(let st' = handleSubmit is_email fetch st in
           statusLog st' = statusLog st @ [Loading, Success] \<and>
           submitStatus st' = Success \<and>
           requests st' = requests st @ [example_payload] \<and>
           statusMessage st' = js ''Cadastro enviado com sucesso!'' \<and>
           (\<forall>f. field_values st' f = None \<and> shown_value st' f = []))"
  using handleSubmit_example_sent [of is_email fetch outcome st] assms(1,2,4)
  by (simp add: Let_def shown_value_def)

theorem submit_example_witness:
  "submitStatus filled_form = Idle \<and>
   statusLog (handleSubmit sample_is_email fetch_delivers filled_form) = [Loading, Success] \<and>
   submitStatus (handleSubmit sample_is_email fetch_delivers filled_form) = Success \<and>
   requests (handleSubmit sample_is_email fetch_delivers filled_form) = [example_payload] \<and>
   shown_value (handleSubmit sample_is_email fetch_delivers filled_form) Celular = []"
proof -
  have a: "fetch_delivers example_payload = Sent Delivered"
    by (simp add: fetch_delivers_def)
  have b: "submitStatus filled_form = Idle"
    by (simp add: filled_form_def initial_state_def)
  have c: "field_values filled_form = example_values"
    by (simp add: filled_form_def)
  have d: "statusLog filled_form = []" "requests filled_form = []"
    by (simp_all add: filled_form_def initial_state_def)
  show ?thesis
    using submit_example [of sample_is_email fetch_delivers Delivered filled_form]
      sample_accepts_example a b c d
    by (simp add: Let_def)
qed

text \<open>
  C6. When submit is invoked and some field fails its rule, the status stays as it was,
  \<open>setSubmitStatus\<close> is not called (so the status never becomes loading), no request
  is sent, and the fields that fail are exactly those that get an error. Submitting
  the example with the address arthur@gmail.com from the initial state leaves the status
  idle, sends nothing and puts an error on the email field only.
\<close>

theorem invalid_submit_no_dispatch:
  "((\<exists>f. \<not> field_ok is_email f (field_values st f)) \<longrightarrow>
      (let st' = handleSubmit is_email fetch st in
         submitStatus st' = submitStatus st \<and> statusLog st' = statusLog st \<and>
         requests st' = requests st \<and> statusMessage st' = statusMessage st \<and>
         field_values st' = field_values st \<and>
         (\<forall>f. errors st' f \<noteq> None \<longleftrightarrow> \<not> field_ok is_email f (field_values st f)))) \<and>
   (let st' = handleSubmit is_email fetch bad_email_form in
      submitStatus st' = Idle \<and> statusLog st' = [] \<and> requests st' = [] \<and>
      errors st' Email \<noteq> None \<and> errors st' Nome = None \<and> errors st' Sobrenome = None \<and>
      errors st' Celular = None)"
proof -
  have general: "submitStatus st' = submitStatus s \<and> statusLog st' = statusLog s \<and>
      requests st' = requests s \<and> statusMessage st' = statusMessage s \<and>
      field_values st' = field_values s \<and>
      (\<forall>f. errors st' f \<noteq> None \<longleftrightarrow> \<not> field_ok is_email f (field_values s f))"
    if "\<not> field_ok is_email g (field_values s g)" and "st' = handleSubmit is_email fetch s"
    for s st' g
    using that field_error_iff [of is_email _ "field_values s _"]
    by (simp add: handleSubmit_invalid [of is_email g s] del: not_None_eq)
  have vals: "field_values bad_email_form = bad_email_values"
    by (simp add: bad_email_form_def)
  have bad: "\<not> field_ok is_email Email (field_values bad_email_form Email)"
    by (simp add: vals bad_email_values_def field_ok_def parse_field_def parse_bad_email)
  have ok: "field_ok is_email Nome (field_values bad_email_form Nome)"
    "field_ok is_email Sobrenome (field_values bad_email_form Sobrenome)"
    "field_ok is_email Celular (field_values bad_email_form Celular)"
    by (simp_all add: vals bad_email_values_def example_values_def field_ok_def parse_field_def
        parse_Arthur parse_Takeat parse_example_celular)
  have init: "submitStatus bad_email_form = Idle" "statusLog bad_email_form = []"
    "requests bad_email_form = []"
    by (simp_all add: bad_email_form_def initial_state_def)
  have "let st' = handleSubmit is_email fetch bad_email_form in
      submitStatus st' = Idle \<and> statusLog st' = [] \<and> requests st' = [] \<and>
      errors st' Email \<noteq> None \<and> errors st' Nome = None \<and> errors st' Sobrenome = None \<and>
      errors st' Celular = None"
    using general [of Email bad_email_form "handleSubmit is_email fetch bad_email_form"] bad ok init
    by (simp add: Let_def del: not_None_eq)
  moreover have "(\<exists>f. \<not> field_ok is_email f (field_values st f)) \<longrightarrow>
      (let st' = handleSubmit is_email fetch st in
         submitStatus st' = submitStatus st \<and> statusLog st' = statusLog st \<and>
         requests st' = requests st \<and> statusMessage st' = statusMessage st \<and>
         field_values st' = field_values st \<and>
         (\<forall>f. errors st' f \<noteq> None \<longleftrightarrow> \<not> field_ok is_email f (field_values st f)))"
    using general [of _ st "handleSubmit is_email fetch st"] unfolding Let_def by blast
  ultimately show ?thesis
    by blast
qed

theorem invalid_submit_no_dispatch_witness:
  "\<not> field_ok sample_is_email Email (field_values bad_email_form Email) \<and>
   submitStatus (handleSubmit sample_is_email fetch_delivers bad_email_form) = Idle \<and>
   statusLog (handleSubmit sample_is_email fetch_delivers bad_email_form) = [] \<and>
   requests (handleSubmit sample_is_email fetch_delivers bad_email_form) = [] \<and>
   errors (handleSubmit sample_is_email fetch_delivers bad_email_form) Email \<noteq> None"
proof -
  have bad: "\<not> field_ok sample_is_email Email (field_values bad_email_form Email)"
    by (simp add: bad_email_form_def bad_email_values_def field_ok_def parse_field_def
        parse_bad_email)
  then have ex: "\<exists>f. \<not> field_ok sample_is_email f (field_values bad_email_form f)"
    by blast
  have init: "submitStatus bad_email_form = Idle" "statusLog bad_email_form = []"
    "requests bad_email_form = []"
    by (simp_all add: bad_email_form_def initial_state_def)
  show ?thesis
    using invalid_submit_no_dispatch [of sample_is_email bad_email_form fetch_delivers] ex bad init
    by (simp add: Let_def del: not_None_eq)
qed

text \<open>
  C7. After a valid submission, if \<open>fetch\<close> sends the request the status goes to
  loading and then to success, whatever the outcome of the network is and also once
  that outcome is known; the status becomes error exactly when the call of \<open>fetch\<close>
  throws before a request is sent, and then the status message is the generic error
  message and no request was sent.
\<close>

theorem fire_and_forget:
  "registrationSchema is_email (field_values st) = Inr data \<longrightarrow>
     (let payload = \<lparr>nome = nome data, sobrenome = sobrenome data, email = email data,
                      celular = strip_non_digits (celular data)\<rparr>;
          st' = handleSubmit is_email fetch st
      in (\<forall>outcome. fetch payload = Sent outcome \<longrightarrow>
            statusLog st' = statusLog st @ [Loading, Success] \<and> submitStatus st' = Success \<and>
            requests st' = requests st @ [payload] \<and>
            submitStatus (request_settled outcome st') = Success) \<and>
         (submitStatus st' = Error \<longleftrightarrow> fetch payload = Throws) \<and>
         (fetch payload = Throws \<longrightarrow>
            statusLog st' = statusLog st @ [Loading, Error] \<and>
            statusMessage st' = js ''Erro ao enviar. Tente novamente.'' \<and>
            requests st' = requests st))"
proof
  let ?payload = "\<lparr>nome = nome data, sobrenome = sobrenome data, email = email data,
    celular = strip_non_digits (celular data)\<rparr>"
  let ?st0 = "st\<lparr>errors := (\<lambda>_. None)\<rparr>"
  assume "registrationSchema is_email (field_values st) = Inr data"
  then have h: "handleSubmit is_email fetch st = onSubmit fetch data ?st0"
    by (rule handleSubmit_valid)
  show "let payload = ?payload; st' = handleSubmit is_email fetch st
      in (\<forall>outcome. fetch payload = Sent outcome \<longrightarrow>
            statusLog st' = statusLog st @ [Loading, Success] \<and> submitStatus st' = Success \<and>
            requests st' = requests st @ [payload] \<and>
            submitStatus (request_settled outcome st') = Success) \<and>
         (submitStatus st' = Error \<longleftrightarrow> fetch payload = Throws) \<and>
         (fetch payload = Throws \<longrightarrow>
            statusLog st' = statusLog st @ [Loading, Error] \<and>
            statusMessage st' = js ''Erro ao enviar. Tente novamente.'' \<and>
            requests st' = requests st)"
  proof (cases "fetch ?payload")
    case Throws
    then show ?thesis
      using onSubmit_throws [of fetch data ?st0]
      by (simp add: h Let_def)
  next
    case (Sent outcome)
    then show ?thesis
      using onSubmit_sent [of fetch data outcome ?st0]
      by (simp add: h Let_def request_settled_def)
  qed
qed

theorem fire_and_forget_witness:
  "submitStatus (handleSubmit sample_is_email fetch_fails filled_form) = Success \<and>
   requests (handleSubmit sample_is_email fetch_fails filled_form) = [example_payload] \<and>
   submitStatus (handleSubmit sample_is_email fetch_throws filled_form) = Error \<and>
   requests (handleSubmit sample_is_email fetch_throws filled_form) = [] \<and>
   statusMessage (handleSubmit sample_is_email fetch_throws filled_form) =
     js ''Erro ao enviar. Tente novamente.''"
proof -
  let ?data = "\<lparr>nome = js ''Arthur'', sobrenome = js ''Takeat'',
    email = js ''arthur.takeat@gmail.com'', celular = js ''(11) 98765-4321''\<rparr>"
  have valid: "registrationSchema sample_is_email (field_values filled_form) = Inr ?data"
    by (simp add: filled_form_def schema_example sample_accepts_example)
  have init: "statusLog filled_form = []" "requests filled_form = []"
    by (simp_all add: filled_form_def initial_state_def)
  show ?thesis
    using fire_and_forget [of sample_is_email filled_form ?data fetch_fails]
      fire_and_forget [of sample_is_email filled_form ?data fetch_throws] valid init
    by (simp add: Let_def fetch_fails_def fetch_throws_def example_payload_def
        strip_example_celular)
qed

text \<open>
  C8, as the claim states it, fails: after the example was submitted the status is
  success, and it is still success after the phone field or the first name is edited;
  after a submission whose \<open>fetch\<close> threw the status is error, and an edit leaves it so.
\<close>

theorem edit_keeps_terminal_status:
  "submitStatus submitted_form = Success \<and>
   submitStatus (edit_field sample_is_email False Celular (js ''1'') submitted_form) = Success \<and>
   submitStatus (edit_field sample_is_email False Nome (js ''A'') submitted_form) = Success \<and>
   submitStatus failed_form = Error \<and>
   submitStatus (edit_field sample_is_email False Celular (js ''1'') failed_form) = Error"
proof -
  have e: "submitStatus (edit_field sample_is_email False f v s) = submitStatus s" for f v s
    by (simp add: edit_field_def handlePhoneChange_def setValue_def registered_change_def Let_def)
  show ?thesis
    using submitStatus_submitted_form submitStatus_failed_form e by simp
qed

text \<open>
  C8, amended. Editing a field, the phone through its handler or another field through
  the registered handler, changes neither the status nor the status message, and does
  not call \<open>setSubmitStatus\<close>: a status of success or error stays until the next submit.
\<close>

theorem edit_leaves_status:
  "submitStatus (edit_field is_email revalidate f v st) = submitStatus st \<and>
   statusMessage (edit_field is_email revalidate f v st) = statusMessage st \<and>
   statusLog (edit_field is_email revalidate f v st) = statusLog st"
  by (simp add: edit_field_def handlePhoneChange_def setValue_def registered_change_def Let_def)

theorem edit_leaves_status_witness:
  "submitStatus (edit_field sample_is_email True Email (js ''a@b.c'') submitted_form) = Success \<and>
   submitStatus (edit_field sample_is_email False Celular (js ''11'') failed_form) = Error"
  using edit_leaves_status [of sample_is_email True Email "js ''a@b.c''" submitted_form]
    edit_leaves_status [of sample_is_email False Celular "js ''11''" failed_form]
    submitStatus_submitted_form submitStatus_failed_form
  by simp

end
